theory Spec2Isabelle
  imports Complex_Main
begin

section \<open>Rate-limit tables (src/limits.ts)\<close>

text \<open>
  JavaScript numbers are modelled as unbounded integers: every counter, ceiling and
  timestamp of the program is an integer far below \<open>2^53\<close>, where doubles are exact.
  Timestamps are milliseconds since the epoch, as \<open>Date.now()\<close> returns them.
\<close>

record ModelLimits =
  rpm :: int
  rpd :: int
  tpm :: int
  tpd :: int

text \<open>The own properties of the object literal \<open>MODEL_LIMITS\<close>, in source order.\<close>

definition MODEL_LIMITS :: "(string \<times> ModelLimits) list" where
  "MODEL_LIMITS =
    [(''llama-3.3-70b-versatile'', \<lparr>rpm = 30, rpd = 14400, tpm = 6000, tpd = 500000\<rparr>),
     (''llama-3.1-70b-versatile'', \<lparr>rpm = 30, rpd = 14400, tpm = 6000, tpd = 500000\<rparr>),
     (''llama-3.1-8b-instant'', \<lparr>rpm = 30, rpd = 14400, tpm = 20000, tpd = 1000000\<rparr>),
     (''llama3-70b-8192'', \<lparr>rpm = 30, rpd = 14400, tpm = 6000, tpd = 500000\<rparr>),
     (''llama3-8b-8192'', \<lparr>rpm = 30, rpd = 14400, tpm = 20000, tpd = 1000000\<rparr>),
     (''mixtral-8x7b-32768'', \<lparr>rpm = 30, rpd = 14400, tpm = 5000, tpd = 500000\<rparr>),
     (''gemma-7b-it'', \<lparr>rpm = 30, rpd = 14400, tpm = 15000, tpd = 500000\<rparr>),
     (''gemma2-9b-it'', \<lparr>rpm = 30, rpd = 14400, tpm = 15000, tpd = 500000\<rparr>)]"

text \<open>
  \<open>MODEL_LIMITS\<close> is a plain object, so \<open>MODEL_LIMITS[model]\<close> is a JavaScript property
  read: a key that is not an own property is looked up on \<open>Object.prototype\<close>, whose
  members (eleven functions, and the accessor \<open>__proto__\<close> that yields the prototype
  object) are all truthy and carry none of the fields \<open>rpm\<close>, \<open>rpd\<close>, \<open>tpm\<close>, \<open>tpd\<close>.
\<close>

definition Object_prototype_keys :: "string list" where
  "Object_prototype_keys =
    [''constructor'', ''__defineGetter__'', ''__defineSetter__'', ''hasOwnProperty'',
     ''__lookupGetter__'', ''__lookupSetter__'', ''isPrototypeOf'', ''propertyIsEnumerable'',
     ''toString'', ''valueOf'', ''__proto__'', ''toLocaleString'']"

text \<open>
  What a property read on \<open>MODEL_LIMITS\<close> yields: \<open>None\<close> is \<open>undefined\<close>, \<open>Entry\<close> a
  configured limits object, \<open>Inherited k\<close> the member \<open>k\<close> of \<open>Object.prototype\<close>.
\<close>

datatype limits_value = Entry ModelLimits | Inherited string

definition MODEL_LIMITS_get :: "string \<Rightarrow> limits_value option" where
  "MODEL_LIMITS_get model =
    (case map_of MODEL_LIMITS model of
       Some limits \<Rightarrow> Some (Entry limits)
     | None \<Rightarrow> if model \<in> set Object_prototype_keys then Some (Inherited model) else None)"

text \<open>
  \<open>getLimitsForModel\<close> returns the value and the lines it wrote with \<open>console.warn\<close>.
  \<open>!limits\<close> holds for \<open>undefined\<close> only: objects and functions are truthy.
\<close>

definition getLimitsForModel :: "string \<Rightarrow> limits_value \<times> string list" where
  "getLimitsForModel model =
    (case MODEL_LIMITS_get model of
       None \<Rightarrow>
         (Entry \<lparr>rpm = 30, rpd = 14400, tpm = 6000, tpd = 500000\<rparr>,
          [''No limits found for model: '' @ model @ ''. Using default limits.''])
     | Some limits \<Rightarrow> (limits, []))"

text \<open>Field reads on the returned value; a missing property reads as \<open>undefined\<close>.\<close>

fun rpm_of :: "limits_value \<Rightarrow> int option" where
  "rpm_of (Entry l) = Some (rpm l)"
| "rpm_of (Inherited k) = None"

fun rpd_of :: "limits_value \<Rightarrow> int option" where
  "rpd_of (Entry l) = Some (rpd l)"
| "rpd_of (Inherited k) = None"

fun tpm_of :: "limits_value \<Rightarrow> int option" where
  "tpm_of (Entry l) = Some (tpm l)"
| "tpm_of (Inherited k) = None"

fun tpd_of :: "limits_value \<Rightarrow> int option" where
  "tpd_of (Entry l) = Some (tpd l)"
| "tpd_of (Inherited k) = None"

text \<open>\<open>x >= y\<close> on a number and a possibly undefined number: false against \<open>undefined\<close>.\<close>

fun js_ge :: "int \<Rightarrow> int option \<Rightarrow> bool" where
  "js_ge x (Some y) = (y \<le> x)"
| "js_ge x None = False"

section \<open>Usage state (src/groqUsageManager.ts)\<close>

record GroqUsageState =
  model :: string
  tokensUsedThisMinute :: int
  tokensUsedToday :: int
  requestsUsedThisMinute :: int
  requestsUsedToday :: int
  minuteResetAt :: int
  dayResetAt :: int

definition isRateLimited :: "GroqUsageState \<Rightarrow> limits_value \<Rightarrow> bool" where
  "isRateLimited usage limits =
    (js_ge (tokensUsedThisMinute usage) (tpm_of limits) \<or>
     js_ge (tokensUsedToday usage) (tpd_of limits) \<or>
     js_ge (requestsUsedThisMinute usage) (rpm_of limits) \<or>
     js_ge (requestsUsedToday usage) (rpd_of limits))"

text \<open>
  \<open>getSecondsUntilReset\<close> reads the clock itself; the reading is the parameter \<open>now\<close>.
  \<open>Math.ceil(x / 1000)\<close> is the ceiling of the exact quotient.
\<close>

definition getSecondsUntilReset :: "int \<Rightarrow> int \<Rightarrow> int \<Rightarrow> int" where
  "getSecondsUntilReset now minuteReset dayReset =
    (let secondsUntilMinuteReset = max 0 \<lceil>real_of_int (minuteReset - now) / 1000\<rceil>;
         secondsUntilDayReset = max 0 \<lceil>real_of_int (dayReset - now) / 1000\<rceil>
     in min secondsUntilMinuteReset secondsUntilDayReset)"

text \<open>
  The manager owns the entry \<open>groqUsage\<close> of the extension's global state (absent until
  first written) and a list of update callbacks; \<open>notified\<close> counts the rounds of
  \<open>notifyUpdates\<close>. The write of \<open>globalState.update\<close> is taken as applied at once.
\<close>

record GroqUsageManager =
  groqUsage :: "GroqUsageState option"
  notified :: nat

definition getUsageState :: "GroqUsageManager \<Rightarrow> GroqUsageState option" where
  "getUsageState mgr = groqUsage mgr"

definition updateUsageState :: "GroqUsageState \<Rightarrow> GroqUsageManager \<Rightarrow> GroqUsageManager" where
  "updateUsageState state mgr = mgr\<lparr>groqUsage := Some state, notified := Suc (notified mgr)\<rparr>"

text \<open>
  The local time zone is the platform's. ECMAScript's \<open>Date\<close> reaches it through two
  abstract operations, which are the two fields of \<open>TimeZone\<close>: \<open>LocalTime\<close>, from an
  instant to local milliseconds, and \<open>UTC\<close>, from local milliseconds back to an instant,
  both following the zone's rules (daylight saving included).
\<close>

record TimeZone =
  LocalTime :: "int \<Rightarrow> int"
  UTC :: "int \<Rightarrow> int"

text \<open>
  \<open>getNextMidnight\<close>: \<open>new Date()\<close> holds the clock reading \<open>now\<close>, and
  \<open>setHours(24, 0, 0, 0)\<close> is, by the definition of \<open>Date.prototype.setHours\<close>,
  \<open>UTC(MakeDate(Day(t), MakeTime(24, 0, 0, 0)))\<close> with \<open>t = LocalTime(now)\<close>, where
  \<open>Day(t) = floor(t / 86400000)\<close>, \<open>MakeTime(24, 0, 0, 0) = 86400000\<close> and
  \<open>MakeDate(d, m) = d * 86400000 + m\<close>: the instant of the first day boundary of local
  time after \<open>now\<close>.
\<close>

definition getNextMidnight :: "TimeZone \<Rightarrow> int \<Rightarrow> int" where
  "getNextMidnight zone now = UTC zone ((LocalTime zone now div 86400000 + 1) * 86400000)"

text \<open>
  \<open>checkAndResetCounters\<close>: the two resets are two independent \<open>if\<close> blocks on the same
  state object; the state is written back (and observers notified) when either ran.
  One call is taken as instantaneous: its clock readings all give \<open>now\<close>. The
  5-second timer of \<open>startResetTimer\<close> is this same function, called at later instants.
\<close>

definition checkAndResetCounters ::
  "TimeZone \<Rightarrow> int \<Rightarrow> GroqUsageManager \<Rightarrow> GroqUsageManager" where
  "checkAndResetCounters zone now mgr =
    (case getUsageState mgr of
       None \<Rightarrow> mgr
     | Some state \<Rightarrow>
        (let (state1, updated1) =
               (if minuteResetAt state \<le> now
                then (state\<lparr>tokensUsedThisMinute := 0, requestsUsedThisMinute := 0,
                            minuteResetAt := now + 60000\<rparr>, True)
                else (state, False));
             (state2, updated2) =
               (if dayResetAt state1 \<le> now
                then (state1\<lparr>tokensUsedToday := 0, requestsUsedToday := 0,
                             dayResetAt := getNextMidnight zone now\<rparr>, True)
                else (state1, updated1))
         in if updated2 then updateUsageState state2 mgr else mgr))"

definition initializeUsageState ::
  "TimeZone \<Rightarrow> int \<Rightarrow> GroqUsageManager \<Rightarrow> GroqUsageManager" where
  "initializeUsageState zone now mgr =
    (case getUsageState mgr of
       None \<Rightarrow>
         mgr\<lparr>groqUsage := Some
           \<lparr>model = ''llama-3.3-70b-versatile'',
            tokensUsedThisMinute = 0, tokensUsedToday = 0,
            requestsUsedThisMinute = 0, requestsUsedToday = 0,
            minuteResetAt = now + 60000,
            dayResetAt = getNextMidnight zone now\<rparr>\<rparr>
     | Some existing \<Rightarrow> checkAndResetCounters zone now mgr)"

definition recordUsage ::
  "TimeZone \<Rightarrow> int \<Rightarrow> int \<Rightarrow> int \<Rightarrow> int \<Rightarrow> GroqUsageManager \<Rightarrow>
   GroqUsageManager" where
  "recordUsage zone now promptTokens completionTokens totalTokens mgr =
    (let mgr1 = checkAndResetCounters zone now mgr
     in case getUsageState mgr1 of
          None \<Rightarrow> mgr1
        | Some state \<Rightarrow>
            updateUsageState
              (state\<lparr>tokensUsedThisMinute := tokensUsedThisMinute state + totalTokens,
                     tokensUsedToday := tokensUsedToday state + totalTokens,
                     requestsUsedThisMinute := requestsUsedThisMinute state + 1,
                     requestsUsedToday := requestsUsedToday state + 1\<rparr>) mgr1)"

text \<open>
  \<open>enforceLimitsAndWaitIfNeeded\<close>: the clock readings before the wait all give \<open>now\<close>;
  the timer of \<open>setTimeout\<close> fires \<open>late\<close> milliseconds after the requested delay, and
  the second reconciliation runs at that moment. The result is the number of seconds
  waited (shown in the warning message), if any, and the manager. There is no loop: the
  method returns after the second reconciliation whatever the state.
\<close>

definition enforceLimitsAndWaitIfNeeded ::
  "TimeZone \<Rightarrow> int \<Rightarrow> nat \<Rightarrow> GroqUsageManager \<Rightarrow> int option \<times> GroqUsageManager" where
  "enforceLimitsAndWaitIfNeeded zone now late mgr =
    (let mgr1 = checkAndResetCounters zone now mgr
     in case getUsageState mgr1 of
          None \<Rightarrow> (None, mgr1)
        | Some state \<Rightarrow>
            (let limits = fst (getLimitsForModel (model state))
             in if isRateLimited state limits
                then (let secondsToWait =
                            getSecondsUntilReset now (minuteResetAt state) (dayResetAt state)
                      in (Some secondsToWait,
                          checkAndResetCounters zone (now + secondsToWait * 1000 + int late) mgr1))
                else (None, mgr1)))"

definition isCurrentlyRateLimited ::
  "TimeZone \<Rightarrow> int \<Rightarrow> GroqUsageManager \<Rightarrow> bool \<times> GroqUsageManager" where
  "isCurrentlyRateLimited zone now mgr =
    (let mgr1 = checkAndResetCounters zone now mgr
     in case getUsageState mgr1 of
          None \<Rightarrow> (False, mgr1)
        | Some state \<Rightarrow> (isRateLimited state (fst (getLimitsForModel (model state))), mgr1))"

definition getSecondsUntilNextReset :: "int \<Rightarrow> GroqUsageManager \<Rightarrow> int" where
  "getSecondsUntilNextReset now mgr =
    (case getUsageState mgr of
       None \<Rightarrow> 0
     | Some state \<Rightarrow> getSecondsUntilReset now (minuteResetAt state) (dayResetAt state))"

definition setModel :: "string \<Rightarrow> GroqUsageManager \<Rightarrow> GroqUsageManager" where
  "setModel m mgr =
    (case getUsageState mgr of
       None \<Rightarrow> mgr
     | Some state \<Rightarrow> updateUsageState (state\<lparr>model := m\<rparr>) mgr)"

text \<open>A run of \<open>recordUsage\<close> calls, each with its own clock reading, in order.\<close>

fun recordUsages ::
  "TimeZone \<Rightarrow> (int \<times> int \<times> int \<times> int) list \<Rightarrow> GroqUsageManager \<Rightarrow> GroqUsageManager" where
  "recordUsages zone [] mgr = mgr"
| "recordUsages zone ((now, promptTokens, completionTokens, totalTokens) # calls) mgr =
     recordUsages zone calls (recordUsage zone now promptTokens completionTokens totalTokens mgr)"

section \<open>Example states\<close>

text \<open>
  Two zones: UTC, and America/New_York around the end of daylight saving on 2023-11-05
  (at 06:00 UTC): four hours behind UTC before it, five after; a local time that occurs
  twice is resolved to its earlier instant, as ECMAScript's \<open>UTC\<close> does.
\<close>

definition utc_zone :: TimeZone where
  "utc_zone = \<lparr>LocalTime = (\<lambda>t. t), UTC = (\<lambda>t. t)\<rparr>"

definition new_york_autumn_2023 :: TimeZone where
  "new_york_autumn_2023 =
    \<lparr>LocalTime = (\<lambda>t. if t < 1699164000000 then t - 14400000 else t - 18000000),
     UTC = (\<lambda>t. if t < 1699149600000 then t + 14400000 else t + 18000000)\<rparr>"

text \<open>
  The example states are taken at the instant \<open>1700000000000\<close>, whose next midnight in
  UTC is \<open>1700006400000\<close>. In \<open>day_quota_state\<close> only the daily request ceiling is
  reached and the minute window ends in 10 s; in \<open>minute_quota_state\<close> the minute token
  ceiling is passed (5999 + 2 tokens); in \<open>stale_minute_state\<close> the minute window ended
  5 minutes ago.
\<close>

definition day_quota_state :: GroqUsageState where
  "day_quota_state =
    \<lparr>model = ''llama-3.3-70b-versatile'',
     tokensUsedThisMinute = 0, tokensUsedToday = 0,
     requestsUsedThisMinute = 0, requestsUsedToday = 14400,
     minuteResetAt = 1700000010000, dayResetAt = 1700006400000\<rparr>"

definition minute_quota_state :: GroqUsageState where
  "minute_quota_state =
    \<lparr>model = ''llama-3.3-70b-versatile'',
     tokensUsedThisMinute = 6001, tokensUsedToday = 6001,
     requestsUsedThisMinute = 2, requestsUsedToday = 2,
     minuteResetAt = 1700000010000, dayResetAt = 1700006400000\<rparr>"

definition stale_minute_state :: GroqUsageState where
  "stale_minute_state =
    \<lparr>model = ''llama-3.3-70b-versatile'',
     tokensUsedThisMinute = 1200, tokensUsedToday = 4500,
     requestsUsedThisMinute = 3, requestsUsedToday = 9,
     minuteResetAt = 1699999700000, dayResetAt = 1700006400000\<rparr>"

definition fresh_state :: GroqUsageState where
  "fresh_state =
    \<lparr>model = ''llama-3.3-70b-versatile'',
     tokensUsedThisMinute = 0, tokensUsedToday = 0,
     requestsUsedThisMinute = 0, requestsUsedToday = 0,
     minuteResetAt = 1700000060000, dayResetAt = 1700006400000\<rparr>"

definition holding :: "GroqUsageState \<Rightarrow> GroqUsageManager" where
  "holding state = \<lparr>groqUsage = Some state, notified = 0\<rparr>"

section \<open>Auxiliary facts\<close>

lemma ms_ceiling: "\<lceil>real_of_int x / 1000\<rceil> = - ((- x) div 1000)"
  using ceiling_divide_eq_div [of x 1000] by simp

lemma getSecondsUntilReset_int:
  "getSecondsUntilReset now m d =
     min (max 0 (- ((now - m) div 1000))) (max 0 (- ((now - d) div 1000)))"
  unfolding getSecondsUntilReset_def Let_def ms_ceiling by simp

lemma getLimitsForModel_positive:
  assumes "fst (getLimitsForModel m) = Entry l"
  shows "0 < rpm l \<and> 0 < rpd l \<and> 0 < tpm l \<and> 0 < tpd l"
proof (cases "map_of MODEL_LIMITS m")
  case None
  with assms show ?thesis
    by (auto simp: getLimitsForModel_def MODEL_LIMITS_get_def split: if_splits)
next
  case (Some e)
  then have "(m, e) \<in> set MODEL_LIMITS" by (rule map_of_SomeD)
  then have "0 < rpm e \<and> 0 < rpd e \<and> 0 < tpm e \<and> 0 < tpd e"
    by (auto simp: MODEL_LIMITS_def)
  moreover from Some assms have "l = e"
    by (simp add: getLimitsForModel_def MODEL_LIMITS_get_def)
  ultimately show ?thesis by simp
qed

lemma zero_not_limited:
  "\<not> js_ge 0 (tpm_of (fst (getLimitsForModel m)))"
  "\<not> js_ge 0 (tpd_of (fst (getLimitsForModel m)))"
  "\<not> js_ge 0 (rpm_of (fst (getLimitsForModel m)))"
  "\<not> js_ge 0 (rpd_of (fst (getLimitsForModel m)))"
  using getLimitsForModel_positive [of m]
  by (cases "fst (getLimitsForModel m)"; simp)+

lemma checkAndResetCounters_state:
  assumes "getUsageState mgr = Some st"
  shows "getUsageState (checkAndResetCounters zone now mgr) =
     Some \<lparr>model = model st,
           tokensUsedThisMinute = (if minuteResetAt st \<le> now then 0 else tokensUsedThisMinute st),
           tokensUsedToday = (if dayResetAt st \<le> now then 0 else tokensUsedToday st),
           requestsUsedThisMinute = (if minuteResetAt st \<le> now then 0 else requestsUsedThisMinute st),
           requestsUsedToday = (if dayResetAt st \<le> now then 0 else requestsUsedToday st),
           minuteResetAt = (if minuteResetAt st \<le> now then now + 60000 else minuteResetAt st),
           dayResetAt = (if dayResetAt st \<le> now then getNextMidnight zone now else dayResetAt st)\<rparr>"
  using assms
  by (cases st) (simp add: checkAndResetCounters_def getUsageState_def updateUsageState_def)

lemma checkAndResetCounters_None:
  "getUsageState mgr = None \<Longrightarrow> checkAndResetCounters zone now mgr = mgr"
  by (simp add: checkAndResetCounters_def)

lemma checkAndResetCounters_live:
  assumes "getUsageState mgr = Some st" "now < minuteResetAt st" "now < dayResetAt st"
  shows "checkAndResetCounters zone now mgr = mgr"
  using assms by (simp add: checkAndResetCounters_def)

lemma next_day_boundary:
  "(l::int) < (l div 86400000 + 1) * 86400000 \<and>
   (l div 86400000 + 1) * 86400000 \<le> l + 86400000 \<and>
   ((l div 86400000 + 1) * 86400000) mod 86400000 = 0"
proof -
  define q where "q = l div 86400000"
  define r where "r = l mod 86400000"
  have e: "l = q * 86400000 + r" by (simp add: q_def r_def)
  have r: "0 \<le> r" "r < 86400000" by (simp_all add: r_def)
  have d: "(q + 1) * 86400000 - l = 86400000 - r"
    using e by (simp add: algebra_simps)
  have "((q + 1) * 86400000) mod 86400000 = 0" by simp
  with d r show ?thesis unfolding q_def [symmetric] by arith
qed

lemma getNextMidnight_utc_zone:
  "getNextMidnight utc_zone now = (now div 86400000 + 1) * 86400000"
  by (simp add: getNextMidnight_def utc_zone_def)

lemma wait_covers_earlier_reset:
  "min m d \<le> now + getSecondsUntilReset now m d * 1000"
  unfolding getSecondsUntilReset_int by arith

lemma isRateLimited_fields:
  "isRateLimited
     \<lparr>model = k, tokensUsedThisMinute = a, tokensUsedToday = b,
      requestsUsedThisMinute = c, requestsUsedToday = d,
      minuteResetAt = e, dayResetAt = f\<rparr> L =
   (js_ge a (tpm_of L) \<or> js_ge b (tpd_of L) \<or> js_ge c (rpm_of L) \<or> js_ge d (rpd_of L))"
  by (simp add: isRateLimited_def)

lemma lookup_default_model:
  "getLimitsForModel ''llama-3.3-70b-versatile'' =
     (Entry \<lparr>rpm = 30, rpd = 14400, tpm = 6000, tpd = 500000\<rparr>, [])"
  by (simp add: getLimitsForModel_def MODEL_LIMITS_get_def MODEL_LIMITS_def)

lemma getLimitsForModel_own_or_default:
  assumes "m \<notin> set Object_prototype_keys"
  shows "getLimitsForModel m =
     (case map_of MODEL_LIMITS m of
        Some l \<Rightarrow> (Entry l, [])
      | None \<Rightarrow> (Entry \<lparr>rpm = 30, rpd = 14400, tpm = 6000, tpd = 500000\<rparr>,
                 [''No limits found for model: '' @ m @ ''. Using default limits.'']))"
  using assms by (simp add: getLimitsForModel_def MODEL_LIMITS_get_def split: option.splits)

lemma recordUsage_live:
  assumes "getUsageState mgr = Some st" "now < minuteResetAt st" "now < dayResetAt st"
  shows "recordUsage zone now p c t mgr =
     updateUsageState
       (st\<lparr>tokensUsedThisMinute := tokensUsedThisMinute st + t,
           tokensUsedToday := tokensUsedToday st + t,
           requestsUsedThisMinute := requestsUsedThisMinute st + 1,
           requestsUsedToday := requestsUsedToday st + 1\<rparr>) mgr"
  using assms checkAndResetCounters_live [OF assms, of zone]
  by (simp add: recordUsage_def)

lemma recordUsages_live:
  assumes "getUsageState mgr = Some st"
    and "\<forall>call \<in> set calls. fst call < minuteResetAt st \<and> fst call < dayResetAt st"
  shows "getUsageState (recordUsages zone calls mgr) =
     Some (st\<lparr>tokensUsedThisMinute :=
                 tokensUsedThisMinute st + sum_list (map (\<lambda>(now, p, c, t). t) calls),
               tokensUsedToday :=
                 tokensUsedToday st + sum_list (map (\<lambda>(now, p, c, t). t) calls),
               requestsUsedThisMinute := requestsUsedThisMinute st + int (length calls),
               requestsUsedToday := requestsUsedToday st + int (length calls)\<rparr>)"
  using assms
proof (induction calls arbitrary: mgr st)
  case Nil
  then show ?case by (cases st) simp
next
  case (Cons call calls)
  obtain now p c t where call: "call = (now, p, c, t)" by (cases call) auto
  define st2 where "st2 =
      st\<lparr>tokensUsedThisMinute := tokensUsedThisMinute st + t,
         tokensUsedToday := tokensUsedToday st + t,
         requestsUsedThisMinute := requestsUsedThisMinute st + 1,
         requestsUsedToday := requestsUsedToday st + 1\<rparr>"
  have live: "now < minuteResetAt st" "now < dayResetAt st"
    using Cons.prems(2) call by auto
  have step: "recordUsage zone now p c t mgr = updateUsageState st2 mgr"
    using recordUsage_live [OF Cons.prems(1) live] by (simp add: st2_def)
  have next_state: "getUsageState (updateUsageState st2 mgr) = Some st2"
    by (simp add: getUsageState_def updateUsageState_def)
  have rest: "\<forall>call \<in> set calls. fst call < minuteResetAt st2 \<and> fst call < dayResetAt st2"
    using Cons.prems(2) by (simp add: st2_def)
  from Cons.IH [OF next_state rest]
  show ?case
    unfolding call by (cases st) (simp add: step st2_def)
qed

section \<open>Claims\<close>

text \<open>
  Claim C1. The over-limit check is the disjunction of the four comparisons: for every
  usage state and every limits entry \<open>isRateLimited\<close> holds exactly when one of the four
  counters has reached its ceiling; \<open>isCurrentlyRateLimited\<close> answers with that check on
  the reconciled state against what \<open>getLimitsForModel\<close> returns for the state's model;
  and a state whose only non-zero counter is \<open>requestsUsedToday\<close>, equal to \<open>rpd\<close>, is
  rate limited.
\<close>

theorem isOverLimit_any_ceiling:
  "isRateLimited usage (Entry l) =
     (tpm l \<le> tokensUsedThisMinute usage \<or> tpd l \<le> tokensUsedToday usage \<or>
      rpm l \<le> requestsUsedThisMinute usage \<or> rpd l \<le> requestsUsedToday usage)
   \<and> (getUsageState (checkAndResetCounters zone now mgr) = Some st \<longrightarrow>
        fst (isCurrentlyRateLimited zone now mgr) =
          isRateLimited st (fst (getLimitsForModel (model st))))
   \<and> (tokensUsedThisMinute usage = 0 \<and> tokensUsedToday usage = 0 \<and>
        requestsUsedThisMinute usage = 0 \<and> requestsUsedToday usage = rpd l \<longrightarrow>
        isRateLimited usage (Entry l))"
  by (simp add: isRateLimited_def isCurrentlyRateLimited_def)

text \<open>
  Witness for C1: the daily request ceiling alone, reached in a live window, denies.
\<close>

theorem isOverLimit_any_ceiling_witness:
  "getUsageState (checkAndResetCounters utc_zone 1700000000000 (holding day_quota_state)) =
     Some day_quota_state
   \<and> fst (getLimitsForModel (model day_quota_state)) =
       Entry \<lparr>rpm = 30, rpd = 14400, tpm = 6000, tpd = 500000\<rparr>
   \<and> requestsUsedToday day_quota_state = 14400
   \<and> fst (isCurrentlyRateLimited utc_zone 1700000000000 (holding day_quota_state))"
proof -
  have st: "getUsageState (checkAndResetCounters utc_zone 1700000000000 (holding day_quota_state)) =
      Some day_quota_state"
    by (simp add: checkAndResetCounters_def getUsageState_def holding_def day_quota_state_def)
  have l: "fst (getLimitsForModel (model day_quota_state)) =
      Entry \<lparr>rpm = 30, rpd = 14400, tpm = 6000, tpd = 500000\<rparr>"
    by (simp add: day_quota_state_def lookup_default_model)
  have f: "tokensUsedThisMinute day_quota_state = 0 \<and> tokensUsedToday day_quota_state = 0 \<and>
        requestsUsedThisMinute day_quota_state = 0 \<and>
        requestsUsedToday day_quota_state = rpd \<lparr>rpm = 30, rpd = 14400, tpm = 6000, tpd = 500000\<rparr>"
    by (simp add: day_quota_state_def)
  from isOverLimit_any_ceiling
    [of day_quota_state "\<lparr>rpm = 30, rpd = 14400, tpm = 6000, tpd = 500000\<rparr>"
        utc_zone 1700000000000 "holding day_quota_state" day_quota_state] st l f
  show ?thesis by simp
qed

text \<open>
  Claim C2, as amended. When \<open>enforceLimitsAndWaitIfNeeded\<close> finds the reconciled state
  rate limited, it waits \<open>getSecondsUntilReset\<close> seconds, the time to the earlier of the
  two resets, and reconciles again. After that the window whose reset came first has been
  reset (both its counters are 0), and the state is rate limited exactly when a ceiling of
  the other window had been reached and that window's reset is still ahead. So the wait
  suffices whenever only ceilings of the earlier-resetting window were reached.
\<close>

theorem wait_resets_earlier_window:
  assumes st: "getUsageState (checkAndResetCounters zone now mgr) = Some st"
    and lim: "isRateLimited st (fst (getLimitsForModel (model st)))"
  shows "\<exists>st'. enforceLimitsAndWaitIfNeeded zone now late mgr =
            (Some (getSecondsUntilReset now (minuteResetAt st) (dayResetAt st)),
             checkAndResetCounters zone
               (now + getSecondsUntilReset now (minuteResetAt st) (dayResetAt st) * 1000 + int late)
               (checkAndResetCounters zone now mgr))
        \<and> getUsageState (snd (enforceLimitsAndWaitIfNeeded zone now late mgr)) = Some st'
        \<and> (minuteResetAt st \<le> dayResetAt st \<longrightarrow>
             tokensUsedThisMinute st' = 0 \<and> requestsUsedThisMinute st' = 0)
        \<and> (dayResetAt st \<le> minuteResetAt st \<longrightarrow>
             tokensUsedToday st' = 0 \<and> requestsUsedToday st' = 0)
        \<and> (isRateLimited st' (fst (getLimitsForModel (model st'))) \<longleftrightarrow>
             (now + getSecondsUntilReset now (minuteResetAt st) (dayResetAt st) * 1000 + int late
                < minuteResetAt st \<and>
              (js_ge (tokensUsedThisMinute st) (tpm_of (fst (getLimitsForModel (model st)))) \<or>
               js_ge (requestsUsedThisMinute st) (rpm_of (fst (getLimitsForModel (model st))))))
           \<or> (now + getSecondsUntilReset now (minuteResetAt st) (dayResetAt st) * 1000 + int late
                < dayResetAt st \<and>
              (js_ge (tokensUsedToday st) (tpd_of (fst (getLimitsForModel (model st)))) \<or>
               js_ge (requestsUsedToday st) (rpd_of (fst (getLimitsForModel (model st)))))))"
proof -
  define w where "w = getSecondsUntilReset now (minuteResetAt st) (dayResetAt st)"
  define wake where "wake = now + w * 1000 + int late"
  define L where "L = fst (getLimitsForModel (model st))"
  define mgr1 where "mgr1 = checkAndResetCounters zone now mgr"
  have run: "enforceLimitsAndWaitIfNeeded zone now late mgr =
      (Some w, checkAndResetCounters zone wake mgr1)"
    using st lim
    by (simp add: enforceLimitsAndWaitIfNeeded_def Let_def w_def wake_def mgr1_def)
  have early: "min (minuteResetAt st) (dayResetAt st) \<le> wake"
    using wait_covers_earlier_reset [of "minuteResetAt st" "dayResetAt st" now]
    by (simp add: wake_def w_def)
  define st' where "st' =
     \<lparr>model = model st,
      tokensUsedThisMinute = (if minuteResetAt st \<le> wake then 0 else tokensUsedThisMinute st),
      tokensUsedToday = (if dayResetAt st \<le> wake then 0 else tokensUsedToday st),
      requestsUsedThisMinute = (if minuteResetAt st \<le> wake then 0 else requestsUsedThisMinute st),
      requestsUsedToday = (if dayResetAt st \<le> wake then 0 else requestsUsedToday st),
      minuteResetAt = (if minuteResetAt st \<le> wake then wake + 60000 else minuteResetAt st),
      dayResetAt = (if dayResetAt st \<le> wake then getNextMidnight zone wake else dayResetAt st)\<rparr>"
  have after: "getUsageState (checkAndResetCounters zone wake mgr1) = Some st'"
    using checkAndResetCounters_state [of mgr1 st zone wake] st
    by (simp add: mgr1_def st'_def)
  have m: "model st' = model st" by (simp add: st'_def)
  have a: "minuteResetAt st \<le> dayResetAt st \<longrightarrow>
             tokensUsedThisMinute st' = 0 \<and> requestsUsedThisMinute st' = 0"
    using early by (auto simp: st'_def)
  have b: "dayResetAt st \<le> minuteResetAt st \<longrightarrow>
             tokensUsedToday st' = 0 \<and> requestsUsedToday st' = 0"
    using early by (auto simp: st'_def)
  have c: "isRateLimited st' L \<longleftrightarrow>
      (wake < minuteResetAt st \<and>
        (js_ge (tokensUsedThisMinute st) (tpm_of L) \<or> js_ge (requestsUsedThisMinute st) (rpm_of L)))
      \<or> (wake < dayResetAt st \<and>
        (js_ge (tokensUsedToday st) (tpd_of L) \<or> js_ge (requestsUsedToday st) (rpd_of L)))"
    unfolding st'_def isRateLimited_fields L_def
    using zero_not_limited [of "model st"]
    by (cases "minuteResetAt st \<le> wake"; cases "dayResetAt st \<le> wake"; simp; blast)
  show ?thesis
    using run after a b c
    by (intro exI [of _ st']) (simp add: w_def wake_def L_def mgr1_def m)
qed

text \<open>
  Witness for C2: the minute token ceiling is passed, the minute window ends first; after
  the 10 s wait the minute counters are 0 and the state is no longer rate limited.
\<close>

theorem wait_resets_earlier_window_witness:
  "getUsageState (checkAndResetCounters utc_zone 1700000000000 (holding minute_quota_state)) =
     Some minute_quota_state
   \<and> isRateLimited minute_quota_state (fst (getLimitsForModel (model minute_quota_state)))
   \<and> fst (enforceLimitsAndWaitIfNeeded utc_zone 1700000000000 0 (holding minute_quota_state)) = Some 10
   \<and> (\<exists>st'. getUsageState
               (snd (enforceLimitsAndWaitIfNeeded utc_zone 1700000000000 0 (holding minute_quota_state))) =
             Some st'
          \<and> tokensUsedThisMinute st' = 0 \<and> requestsUsedThisMinute st' = 0
          \<and> \<not> isRateLimited st' (fst (getLimitsForModel (model st'))))"
proof -
  have st: "getUsageState (checkAndResetCounters utc_zone 1700000000000 (holding minute_quota_state)) =
      Some minute_quota_state"
    by (simp add: checkAndResetCounters_def getUsageState_def holding_def minute_quota_state_def)
  have lim: "isRateLimited minute_quota_state (fst (getLimitsForModel (model minute_quota_state)))"
    by (simp add: minute_quota_state_def lookup_default_model isRateLimited_def)
  have w: "getSecondsUntilReset 1700000000000 1700000010000 1700006400000 = 10"
    by (simp add: getSecondsUntilReset_def)
  have fields: "minuteResetAt minute_quota_state = 1700000010000"
    "dayResetAt minute_quota_state = 1700006400000"
    "tokensUsedToday minute_quota_state = 6001" "requestsUsedToday minute_quota_state = 2"
    "model minute_quota_state = ''llama-3.3-70b-versatile''"
    by (simp_all add: minute_quota_state_def)
  from wait_resets_earlier_window [OF st lim, of 0]
  obtain st' where r: "enforceLimitsAndWaitIfNeeded utc_zone 1700000000000 0 (holding minute_quota_state) =
            (Some (10::int),
             checkAndResetCounters utc_zone 1700000010000
               (checkAndResetCounters utc_zone 1700000000000 (holding minute_quota_state)))"
      "getUsageState (snd (enforceLimitsAndWaitIfNeeded utc_zone 1700000000000 0
          (holding minute_quota_state))) = Some st'"
      "tokensUsedThisMinute st' = 0 \<and> requestsUsedThisMinute st' = 0"
      "\<not> isRateLimited st' (fst (getLimitsForModel (model st')))"
    unfolding fields w by (auto simp: lookup_default_model)
  from st lim r show ?thesis by auto
qed

text \<open>
  Counterexample to C2 as stated: the daily request ceiling is reached and the minute
  window ends in 10 s. The wait is 10 s, and the state is still rate limited after it.
\<close>

theorem wait_underestimates_day_ceiling:
  "fst (isCurrentlyRateLimited utc_zone 1700000000000 (holding day_quota_state))
   \<and> fst (enforceLimitsAndWaitIfNeeded utc_zone 1700000000000 0 (holding day_quota_state)) = Some 10
   \<and> fst (isCurrentlyRateLimited utc_zone 1700000010000
            (snd (enforceLimitsAndWaitIfNeeded utc_zone 1700000000000 0 (holding day_quota_state))))"
  by (simp add: isCurrentlyRateLimited_def enforceLimitsAndWaitIfNeeded_def
      checkAndResetCounters_def getUsageState_def updateUsageState_def holding_def
      day_quota_state_def lookup_default_model isRateLimited_def getSecondsUntilReset_def)

text \<open>
  Claim C3. \<open>checkAndResetCounters\<close> treats the two windows independently: the minute
  counters are zeroed and \<open>minuteResetAt\<close> set to \<open>now + 60000\<close> exactly when
  \<open>now >= minuteResetAt\<close>; the day counters are zeroed and \<open>dayResetAt\<close> set to the next
  local midnight exactly when \<open>now >= dayResetAt\<close>; every other field keeps its value.
  With the minute window elapsed and the day window live only the minute fields change,
  and the other way round; with both live nothing changes. The next local midnight is
  the instant the zone gives for the first local time after that of \<open>now\<close> that is a
  whole number of days, which is at most a day of local time ahead.
\<close>

theorem reconcile_independent_windows:
  "getUsageState (checkAndResetCounters zone now \<lparr>groqUsage = Some st, notified = n\<rparr>) =
     Some \<lparr>model = model st,
           tokensUsedThisMinute = (if minuteResetAt st \<le> now then 0 else tokensUsedThisMinute st),
           tokensUsedToday = (if dayResetAt st \<le> now then 0 else tokensUsedToday st),
           requestsUsedThisMinute =
             (if minuteResetAt st \<le> now then 0 else requestsUsedThisMinute st),
           requestsUsedToday = (if dayResetAt st \<le> now then 0 else requestsUsedToday st),
           minuteResetAt = (if minuteResetAt st \<le> now then now + 60000 else minuteResetAt st),
           dayResetAt = (if dayResetAt st \<le> now then getNextMidnight zone now else dayResetAt st)\<rparr>
   \<and> (minuteResetAt st \<le> now \<and> now < dayResetAt st \<longrightarrow>
        checkAndResetCounters zone now \<lparr>groqUsage = Some st, notified = n\<rparr> =
          \<lparr>groqUsage = Some (st\<lparr>tokensUsedThisMinute := 0, requestsUsedThisMinute := 0,
                                 minuteResetAt := now + 60000\<rparr>),
           notified = Suc n\<rparr>)
   \<and> (now < minuteResetAt st \<and> dayResetAt st \<le> now \<longrightarrow>
        checkAndResetCounters zone now \<lparr>groqUsage = Some st, notified = n\<rparr> =
          \<lparr>groqUsage = Some (st\<lparr>tokensUsedToday := 0, requestsUsedToday := 0,
                                 dayResetAt := getNextMidnight zone now\<rparr>),
           notified = Suc n\<rparr>)
   \<and> (now < minuteResetAt st \<and> now < dayResetAt st \<longrightarrow>
        checkAndResetCounters zone now \<lparr>groqUsage = Some st, notified = n\<rparr> =
          \<lparr>groqUsage = Some st, notified = n\<rparr>)
   \<and> getNextMidnight zone now = UTC zone ((LocalTime zone now div 86400000 + 1) * 86400000)
   \<and> LocalTime zone now < (LocalTime zone now div 86400000 + 1) * 86400000
   \<and> (LocalTime zone now div 86400000 + 1) * 86400000 \<le> LocalTime zone now + 86400000
   \<and> ((LocalTime zone now div 86400000 + 1) * 86400000) mod 86400000 = 0"
proof -
  have stored: "getUsageState \<lparr>groqUsage = Some st, notified = n\<rparr> = Some st"
    by (simp add: getUsageState_def)
  have minute_only: "minuteResetAt st \<le> now \<and> now < dayResetAt st \<longrightarrow>
        checkAndResetCounters zone now \<lparr>groqUsage = Some st, notified = n\<rparr> =
          \<lparr>groqUsage = Some (st\<lparr>tokensUsedThisMinute := 0, requestsUsedThisMinute := 0,
                                 minuteResetAt := now + 60000\<rparr>),
           notified = Suc n\<rparr>"
    by (simp add: checkAndResetCounters_def getUsageState_def updateUsageState_def)
  have day_only: "now < minuteResetAt st \<and> dayResetAt st \<le> now \<longrightarrow>
        checkAndResetCounters zone now \<lparr>groqUsage = Some st, notified = n\<rparr> =
          \<lparr>groqUsage = Some (st\<lparr>tokensUsedToday := 0, requestsUsedToday := 0,
                                 dayResetAt := getNextMidnight zone now\<rparr>),
           notified = Suc n\<rparr>"
    by (simp add: checkAndResetCounters_def getUsageState_def updateUsageState_def)
  have neither: "now < minuteResetAt st \<and> now < dayResetAt st \<longrightarrow>
        checkAndResetCounters zone now \<lparr>groqUsage = Some st, notified = n\<rparr> =
          \<lparr>groqUsage = Some st, notified = n\<rparr>"
    by (simp add: checkAndResetCounters_def getUsageState_def)
  have midnight: "getNextMidnight zone now =
      UTC zone ((LocalTime zone now div 86400000 + 1) * 86400000)"
    by (simp add: getNextMidnight_def)
  from checkAndResetCounters_state [OF stored, of zone now] minute_only day_only neither
    midnight next_day_boundary [of "LocalTime zone now"]
  show ?thesis by blast
qed

text \<open>
  Witness for C3: in UTC, the minute window ended 5 minutes ago and the day window is
  live; only the minute counters and \<open>minuteResetAt\<close> change. In New York, one
  millisecond after the midnight that starts 2023-11-05, the 25-hour day on which
  daylight saving ends, a state whose minute window is live loses its day counters only,
  and \<open>dayResetAt\<close> becomes the next midnight, 1699246800000, 24 h 59 min 59.999 s ahead.
\<close>

theorem reconcile_independent_windows_witness:
  "getUsageState
     (checkAndResetCounters utc_zone 1700000000000 (holding stale_minute_state)) =
     Some \<lparr>model = ''llama-3.3-70b-versatile'',
           tokensUsedThisMinute = 0, tokensUsedToday = 4500,
           requestsUsedThisMinute = 0, requestsUsedToday = 9,
           minuteResetAt = 1700000060000, dayResetAt = 1700006400000\<rparr>
   \<and> getUsageState
        (checkAndResetCounters new_york_autumn_2023 1699156800001
           (holding (minute_quota_state\<lparr>minuteResetAt := 1699156810000,
                                        dayResetAt := 1699156800000\<rparr>))) =
     Some \<lparr>model = ''llama-3.3-70b-versatile'',
           tokensUsedThisMinute = 6001, tokensUsedToday = 0,
           requestsUsedThisMinute = 2, requestsUsedToday = 0,
           minuteResetAt = 1699156810000, dayResetAt = 1699246800000\<rparr>
   \<and> getNextMidnight new_york_autumn_2023 1699156800001 = 1699246800000"
proof -
  have a: "minuteResetAt stale_minute_state \<le> 1700000000000"
    "1700000000000 < dayResetAt stale_minute_state"
    by (simp_all add: stale_minute_state_def)
  have b: "1699156800001 < minuteResetAt (minute_quota_state\<lparr>minuteResetAt := 1699156810000,
                                        dayResetAt := 1699156800000\<rparr>)"
    "dayResetAt (minute_quota_state\<lparr>minuteResetAt := 1699156810000,
                                        dayResetAt := 1699156800000\<rparr>) \<le> 1699156800001"
    by (simp_all add: minute_quota_state_def)
  from reconcile_independent_windows [of utc_zone 1700000000000 stale_minute_state 0] a
  have 1: "checkAndResetCounters utc_zone 1700000000000 (holding stale_minute_state) =
          \<lparr>groqUsage = Some (stale_minute_state\<lparr>tokensUsedThisMinute := 0,
              requestsUsedThisMinute := 0, minuteResetAt := 1700000000000 + 60000\<rparr>),
           notified = Suc 0\<rparr>"
    unfolding holding_def by blast
  from reconcile_independent_windows
      [of new_york_autumn_2023 1699156800001
          "minute_quota_state\<lparr>minuteResetAt := 1699156810000, dayResetAt := 1699156800000\<rparr>" 0]
  have 2: "checkAndResetCounters new_york_autumn_2023 1699156800001
           (holding (minute_quota_state\<lparr>minuteResetAt := 1699156810000,
                                        dayResetAt := 1699156800000\<rparr>)) =
          \<lparr>groqUsage = Some (minute_quota_state\<lparr>minuteResetAt := 1699156810000,
              dayResetAt := 1699156800000,
              tokensUsedToday := 0, requestsUsedToday := 0,
              dayResetAt := getNextMidnight new_york_autumn_2023 1699156800001\<rparr>),
           notified = Suc 0\<rparr>"
    and 3: "getNextMidnight new_york_autumn_2023 1699156800001 =
      UTC new_york_autumn_2023
        ((LocalTime new_york_autumn_2023 1699156800001 div 86400000 + 1) * 86400000)"
    using b unfolding holding_def by blast+
  have 4: "UTC new_york_autumn_2023
        ((LocalTime new_york_autumn_2023 1699156800001 div 86400000 + 1) * 86400000) =
      1699246800000"
    by (simp add: new_york_autumn_2023_def)
  from 1 2 3 4 show ?thesis
    by (simp add: getUsageState_def stale_minute_state_def minute_quota_state_def)
qed

text \<open>
  Claim C4. \<open>recordUsage\<close> first reconciles, then adds \<open>totalTokens\<close> to both token
  counters and one request (the source has no request-count argument: every call is one
  request) to both request counters. Over any run of calls made before either reset
  instant every counter is its starting value plus what was recorded, so it never goes
  down while the recorded token counts are not negative; from zero, 5 then 3 tokens give
  a minute-token counter of 8.
\<close>

theorem record_adds_and_accumulates:
  "getUsageState (recordUsage zone now p c t mgr) =
     map_option
       (\<lambda>state. state\<lparr>tokensUsedThisMinute := tokensUsedThisMinute state + t,
                       tokensUsedToday := tokensUsedToday state + t,
                       requestsUsedThisMinute := requestsUsedThisMinute state + 1,
                       requestsUsedToday := requestsUsedToday state + 1\<rparr>)
       (getUsageState (checkAndResetCounters zone now mgr))
   \<and> (getUsageState mgr = Some st \<and>
       (\<forall>call \<in> set calls. fst call < minuteResetAt st \<and> fst call < dayResetAt st) \<longrightarrow>
       (\<exists>st'. getUsageState (recordUsages zone calls mgr) = Some st'
          \<and> tokensUsedThisMinute st' =
              tokensUsedThisMinute st + sum_list (map (\<lambda>(now, p, c, t). t) calls)
          \<and> tokensUsedToday st' =
              tokensUsedToday st + sum_list (map (\<lambda>(now, p, c, t). t) calls)
          \<and> requestsUsedThisMinute st' = requestsUsedThisMinute st + int (length calls)
          \<and> requestsUsedToday st' = requestsUsedToday st + int (length calls)
          \<and> minuteResetAt st' = minuteResetAt st \<and> dayResetAt st' = dayResetAt st
          \<and> model st' = model st
          \<and> ((\<forall>call \<in> set calls. 0 \<le> (\<lambda>(now, p, c, t). t) call) \<longrightarrow>
               tokensUsedThisMinute st \<le> tokensUsedThisMinute st'
             \<and> tokensUsedToday st \<le> tokensUsedToday st'
             \<and> requestsUsedThisMinute st \<le> requestsUsedThisMinute st'
             \<and> requestsUsedToday st \<le> requestsUsedToday st')))"
proof -
  have one: "getUsageState (recordUsage zone now p c t mgr) =
     map_option
       (\<lambda>state. state\<lparr>tokensUsedThisMinute := tokensUsedThisMinute state + t,
                       tokensUsedToday := tokensUsedToday state + t,
                       requestsUsedThisMinute := requestsUsedThisMinute state + 1,
                       requestsUsedToday := requestsUsedToday state + 1\<rparr>)
       (getUsageState (checkAndResetCounters zone now mgr))"
    by (cases "getUsageState (checkAndResetCounters zone now mgr)")
      (simp_all add: recordUsage_def Let_def getUsageState_def updateUsageState_def)
  have nonneg: "0 \<le> sum_list (map (\<lambda>(now, p, c, t). t) calls)"
    if "\<forall>call \<in> set calls. 0 \<le> (\<lambda>(now, p, c, t). t) call"
    using that by (intro sum_list_nonneg) auto
  have many: "\<exists>st'. getUsageState (recordUsages zone calls mgr) = Some st'
          \<and> tokensUsedThisMinute st' =
              tokensUsedThisMinute st + sum_list (map (\<lambda>(now, p, c, t). t) calls)
          \<and> tokensUsedToday st' =
              tokensUsedToday st + sum_list (map (\<lambda>(now, p, c, t). t) calls)
          \<and> requestsUsedThisMinute st' = requestsUsedThisMinute st + int (length calls)
          \<and> requestsUsedToday st' = requestsUsedToday st + int (length calls)
          \<and> minuteResetAt st' = minuteResetAt st \<and> dayResetAt st' = dayResetAt st
          \<and> model st' = model st
          \<and> ((\<forall>call \<in> set calls. 0 \<le> (\<lambda>(now, p, c, t). t) call) \<longrightarrow>
               tokensUsedThisMinute st \<le> tokensUsedThisMinute st'
             \<and> tokensUsedToday st \<le> tokensUsedToday st'
             \<and> requestsUsedThisMinute st \<le> requestsUsedThisMinute st'
             \<and> requestsUsedToday st \<le> requestsUsedToday st')"
    if h: "getUsageState mgr = Some st"
      "\<forall>call \<in> set calls. fst call < minuteResetAt st \<and> fst call < dayResetAt st"
    using recordUsages_live [OF h, of zone] nonneg by auto
  from one many show ?thesis by blast
qed

text \<open>
  Witness for C4: on the fresh state of instant 1700000000000, a call with 5 tokens one
  second later and a call with 3 tokens two seconds later leave 8 tokens and 2 requests.
\<close>

theorem record_adds_and_accumulates_witness:
  "getUsageState (holding fresh_state) = Some fresh_state
   \<and> 1700000002000 < minuteResetAt fresh_state
   \<and> 1700000002000 < dayResetAt fresh_state
   \<and> (\<exists>st'. getUsageState
               (recordUsages utc_zone [(1700000001000::int, 2::int, 3::int, 5::int), (1700000002000, 1, 2, 3)]
                  (holding fresh_state)) = Some st'
          \<and> tokensUsedThisMinute st' = 8 \<and> tokensUsedToday st' = 8
          \<and> requestsUsedThisMinute st' = 2 \<and> requestsUsedToday st' = 2)"
proof -
  have h: "getUsageState (holding fresh_state) = Some fresh_state"
    by (simp add: getUsageState_def holding_def)
  have live: "\<forall>call \<in> set [(1700000001000::int, 2::int, 3::int, 5::int), (1700000002000, 1, 2, 3)].
         fst call < minuteResetAt fresh_state \<and> fst call < dayResetAt fresh_state"
    by (simp add: fresh_state_def)
  have zero: "tokensUsedThisMinute fresh_state = 0" "tokensUsedToday fresh_state = 0"
    "requestsUsedThisMinute fresh_state = 0" "requestsUsedToday fresh_state = 0"
    by (simp_all add: fresh_state_def)
  from record_adds_and_accumulates
    [of utc_zone 0 0 0 0 "holding fresh_state" fresh_state
        "[(1700000001000::int, 2::int, 3::int, 5::int), (1700000002000, 1, 2, 3)]"] h live
  obtain st' where "getUsageState
               (recordUsages utc_zone [(1700000001000::int, 2::int, 3::int, 5::int), (1700000002000, 1, 2, 3)]
                  (holding fresh_state)) = Some st'"
     "tokensUsedThisMinute st' = 8" "tokensUsedToday st' = 8"
     "requestsUsedThisMinute st' = 2" "requestsUsedToday st' = 2"
    by (auto simp: zero)
  moreover have "1700000002000 < minuteResetAt fresh_state"
    "1700000002000 < dayResetAt fresh_state"
    by (simp_all add: fresh_state_def)
  ultimately show ?thesis using h by blast
qed

text \<open>
  Claim C5. \<open>getSecondsUntilReset\<close> is the smaller of the two ceilings of the distances
  to the reset instants in seconds, floored at 0, so never negative; with the minute reset
  10 s ahead and the day reset 3600 s ahead it is 10. \<open>getSecondsUntilNextReset\<close> applies
  it to the two timestamps of the stored state.
\<close>

theorem secondsUntilCapacity_value:
  "getSecondsUntilReset now m d =
     max 0 (min \<lceil>real_of_int (m - now) / 1000\<rceil> \<lceil>real_of_int (d - now) / 1000\<rceil>)
   \<and> 0 \<le> getSecondsUntilReset now m d
   \<and> getSecondsUntilReset now (now + 10000) (now + 3600000) = 10
   \<and> getSecondsUntilNextReset now \<lparr>groqUsage = Some st, notified = n\<rparr> =
       getSecondsUntilReset now (minuteResetAt st) (dayResetAt st)"
  by (simp add: getSecondsUntilReset_def Let_def getSecondsUntilNextReset_def getUsageState_def)

text \<open>
  Witness for C5: 999 ms before the minute reset the wait is 1 s; past both resets it is 0.
\<close>

theorem secondsUntilCapacity_value_witness:
  "getSecondsUntilReset 1700000009001 1700000010000 1700006400000 = 1
   \<and> getSecondsUntilReset 1700006400001 1700000010000 1700006400000 = 0
   \<and> getSecondsUntilNextReset 1700000000000 (holding day_quota_state) = 10"
  using secondsUntilCapacity_value [of 1700000009001 1700000010000 1700006400000]
    secondsUntilCapacity_value [of 1700006400001 1700000010000 1700006400000]
    secondsUntilCapacity_value [of 1700000000000 1700000010000 1700006400000 day_quota_state 0]
  by (simp add: holding_def day_quota_state_def)

text \<open>
  Claim C6 fails on the code for the ids that \<open>MODEL_LIMITS\<close> inherits from
  \<open>Object.prototype\<close>: \<open>getLimitsForModel\<close> returns the inherited member for
  \<open>constructor\<close>, without a warning, instead of the default entry; no counter is ever
  at or above a ceiling of that value.
\<close>

theorem lookup_prototype_key:
  "getLimitsForModel ''constructor'' = (Inherited ''constructor'', [])
   \<and> \<not> isRateLimited usage (fst (getLimitsForModel ''constructor''))"
  by (simp add: getLimitsForModel_def MODEL_LIMITS_get_def MODEL_LIMITS_def
      Object_prototype_keys_def isRateLimited_def)

text \<open>
  Claim C7, as amended. \<open>isCurrentlyRateLimited\<close>, \<open>recordUsage\<close> and
  \<open>enforceLimitsAndWaitIfNeeded\<close> reconcile first: the answer of the check ignores the
  counters of an elapsed window, a recording lands on the zeroed counters of the new
  window, and the wait is decided on the reconciled state. \<open>getUsageState\<close> and
  \<open>getSecondsUntilNextReset\<close> do not reconcile: they return the stored state, and the
  wait computed from the stored timestamps, as they are.
\<close>

theorem reconciling_operations:
  assumes "getUsageState mgr = Some st"
  shows "snd (isCurrentlyRateLimited zone now mgr) = checkAndResetCounters zone now mgr
   \<and> (fst (isCurrentlyRateLimited zone now mgr) \<longleftrightarrow>
        (now < minuteResetAt st \<and>
          (js_ge (tokensUsedThisMinute st) (tpm_of (fst (getLimitsForModel (model st)))) \<or>
           js_ge (requestsUsedThisMinute st) (rpm_of (fst (getLimitsForModel (model st))))))
      \<or> (now < dayResetAt st \<and>
          (js_ge (tokensUsedToday st) (tpd_of (fst (getLimitsForModel (model st)))) \<or>
           js_ge (requestsUsedToday st) (rpd_of (fst (getLimitsForModel (model st)))))))
   \<and> getUsageState (recordUsage zone now p c t mgr) =
       Some \<lparr>model = model st,
             tokensUsedThisMinute =
               (if minuteResetAt st \<le> now then 0 else tokensUsedThisMinute st) + t,
             tokensUsedToday = (if dayResetAt st \<le> now then 0 else tokensUsedToday st) + t,
             requestsUsedThisMinute =
               (if minuteResetAt st \<le> now then 0 else requestsUsedThisMinute st) + 1,
             requestsUsedToday = (if dayResetAt st \<le> now then 0 else requestsUsedToday st) + 1,
             minuteResetAt = (if minuteResetAt st \<le> now then now + 60000 else minuteResetAt st),
             dayResetAt =
               (if dayResetAt st \<le> now then getNextMidnight zone now else dayResetAt st)\<rparr>
   \<and> (fst (enforceLimitsAndWaitIfNeeded zone now late mgr) = None \<longleftrightarrow>
        \<not> fst (isCurrentlyRateLimited zone now mgr))
   \<and> getUsageState mgr = groqUsage mgr
   \<and> getSecondsUntilNextReset now mgr =
       getSecondsUntilReset now (minuteResetAt st) (dayResetAt st)"
proof -
  define st1 where "st1 =
     \<lparr>model = model st,
      tokensUsedThisMinute = (if minuteResetAt st \<le> now then 0 else tokensUsedThisMinute st),
      tokensUsedToday = (if dayResetAt st \<le> now then 0 else tokensUsedToday st),
      requestsUsedThisMinute = (if minuteResetAt st \<le> now then 0 else requestsUsedThisMinute st),
      requestsUsedToday = (if dayResetAt st \<le> now then 0 else requestsUsedToday st),
      minuteResetAt = (if minuteResetAt st \<le> now then now + 60000 else minuteResetAt st),
      dayResetAt = (if dayResetAt st \<le> now then getNextMidnight zone now else dayResetAt st)\<rparr>"
  have rec: "getUsageState (checkAndResetCounters zone now mgr) = Some st1"
    using checkAndResetCounters_state [OF assms, of zone now] by (simp add: st1_def)
  have m: "model st1 = model st" by (simp add: st1_def)
  have answer: "fst (isCurrentlyRateLimited zone now mgr) =
      isRateLimited st1 (fst (getLimitsForModel (model st)))"
    using rec by (simp add: isCurrentlyRateLimited_def m)
  have live_only: "isRateLimited st1 (fst (getLimitsForModel (model st))) \<longleftrightarrow>
        (now < minuteResetAt st \<and>
          (js_ge (tokensUsedThisMinute st) (tpm_of (fst (getLimitsForModel (model st)))) \<or>
           js_ge (requestsUsedThisMinute st) (rpm_of (fst (getLimitsForModel (model st))))))
      \<or> (now < dayResetAt st \<and>
          (js_ge (tokensUsedToday st) (tpd_of (fst (getLimitsForModel (model st)))) \<or>
           js_ge (requestsUsedToday st) (rpd_of (fst (getLimitsForModel (model st))))))"
    unfolding st1_def isRateLimited_fields
    using zero_not_limited [of "model st"]
    by (cases "minuteResetAt st \<le> now"; cases "dayResetAt st \<le> now"; simp; blast)
  have second: "snd (isCurrentlyRateLimited zone now mgr) = checkAndResetCounters zone now mgr"
    using rec by (simp add: isCurrentlyRateLimited_def)
  have recorded: "getUsageState (recordUsage zone now p c t mgr) =
       Some \<lparr>model = model st,
             tokensUsedThisMinute =
               (if minuteResetAt st \<le> now then 0 else tokensUsedThisMinute st) + t,
             tokensUsedToday = (if dayResetAt st \<le> now then 0 else tokensUsedToday st) + t,
             requestsUsedThisMinute =
               (if minuteResetAt st \<le> now then 0 else requestsUsedThisMinute st) + 1,
             requestsUsedToday = (if dayResetAt st \<le> now then 0 else requestsUsedToday st) + 1,
             minuteResetAt = (if minuteResetAt st \<le> now then now + 60000 else minuteResetAt st),
             dayResetAt =
               (if dayResetAt st \<le> now then getNextMidnight zone now else dayResetAt st)\<rparr>"
    using rec
    by (simp add: recordUsage_def Let_def)
      (simp add: getUsageState_def updateUsageState_def st1_def)
  have waits: "fst (enforceLimitsAndWaitIfNeeded zone now late mgr) = None \<longleftrightarrow>
        \<not> fst (isCurrentlyRateLimited zone now mgr)"
    using rec by (simp add: enforceLimitsAndWaitIfNeeded_def isCurrentlyRateLimited_def Let_def m)
  have plain: "getUsageState mgr = groqUsage mgr"
    "getSecondsUntilNextReset now mgr =
       getSecondsUntilReset now (minuteResetAt st) (dayResetAt st)"
    using assms by (simp_all add: getUsageState_def getSecondsUntilNextReset_def)
  from second answer live_only recorded waits plain show ?thesis by simp
qed

text \<open>
  Witness for C7: on the state whose minute window ended 5 minutes ago, with 1200 tokens
  and 3 requests on its minute counters, a call recording 16 tokens leaves 16 tokens and
  1 request in the new minute window, and the check is negative.
\<close>

theorem reconciling_operations_witness:
  "getUsageState (holding stale_minute_state) = Some stale_minute_state
   \<and> \<not> fst (isCurrentlyRateLimited utc_zone 1700000000000 (holding stale_minute_state))
   \<and> getUsageState (recordUsage utc_zone 1700000000000 7 9 16 (holding stale_minute_state)) =
       Some \<lparr>model = ''llama-3.3-70b-versatile'',
             tokensUsedThisMinute = 16, tokensUsedToday = 4516,
             requestsUsedThisMinute = 1, requestsUsedToday = 10,
             minuteResetAt = 1700000060000, dayResetAt = 1700006400000\<rparr>"
proof -
  have h: "getUsageState (holding stale_minute_state) = Some stale_minute_state"
    by (simp add: getUsageState_def holding_def)
  from reconciling_operations [OF h, of utc_zone 1700000000000 7 9 16 0] h
  show ?thesis
    by (simp add: stale_minute_state_def lookup_default_model)
qed

text \<open>
  Counterexample to C7 as stated: at instant 1700000000000 the stored minute window has
  been over for 5 minutes. \<open>getUsageState\<close> returns the 1200 tokens and 3 requests of
  that window, where reconciliation gives 0, and \<open>getSecondsUntilNextReset\<close> returns 0,
  where the reconciled state gives 60.
\<close>

theorem snapshot_reads_stale:
  "minuteResetAt stale_minute_state \<le> 1700000000000
   \<and> map_option tokensUsedThisMinute (getUsageState (holding stale_minute_state)) = Some 1200
   \<and> map_option requestsUsedThisMinute (getUsageState (holding stale_minute_state)) = Some 3
   \<and> map_option tokensUsedThisMinute
        (getUsageState (checkAndResetCounters utc_zone 1700000000000 (holding stale_minute_state))) =
       Some 0
   \<and> getSecondsUntilNextReset 1700000000000 (holding stale_minute_state) = 0
   \<and> getSecondsUntilNextReset 1700000000000
        (checkAndResetCounters utc_zone 1700000000000 (holding stale_minute_state)) = 60"
  by (simp add: getUsageState_def holding_def stale_minute_state_def checkAndResetCounters_def
      updateUsageState_def getSecondsUntilNextReset_def getSecondsUntilReset_def)

text \<open>
  Claim C8. On an existing state \<open>setModel\<close> stores the state with the \<open>model\<close> field
  replaced and notifies; the four counters and the two reset timestamps are unchanged.
\<close>

theorem setResource_frame:
  "setModel m \<lparr>groqUsage = Some st, notified = n\<rparr> =
     \<lparr>groqUsage = Some (st\<lparr>model := m\<rparr>), notified = Suc n\<rparr>
   \<and> tokensUsedThisMinute (st\<lparr>model := m\<rparr>) = tokensUsedThisMinute st
   \<and> tokensUsedToday (st\<lparr>model := m\<rparr>) = tokensUsedToday st
   \<and> requestsUsedThisMinute (st\<lparr>model := m\<rparr>) = requestsUsedThisMinute st
   \<and> requestsUsedToday (st\<lparr>model := m\<rparr>) = requestsUsedToday st
   \<and> minuteResetAt (st\<lparr>model := m\<rparr>) = minuteResetAt st
   \<and> dayResetAt (st\<lparr>model := m\<rparr>) = dayResetAt st
   \<and> model (st\<lparr>model := m\<rparr>) = m"
  by (simp add: setModel_def getUsageState_def updateUsageState_def)

text \<open>
  Witness for C8: switching a state past its minute token ceiling to another model keeps
  the counters, elapsed or not, and the timestamps.
\<close>

theorem setResource_frame_witness:
  "getUsageState (setModel ''gemma-7b-it'' (holding minute_quota_state)) =
     Some \<lparr>model = ''gemma-7b-it'',
           tokensUsedThisMinute = 6001, tokensUsedToday = 6001,
           requestsUsedThisMinute = 2, requestsUsedToday = 2,
           minuteResetAt = 1700000010000, dayResetAt = 1700006400000\<rparr>"
  using setResource_frame [of "''gemma-7b-it''" minute_quota_state 0]
  by (simp add: holding_def getUsageState_def minute_quota_state_def)

text \<open>
  Claim C9. With nothing stored \<open>initializeUsageState\<close> stores a fresh state: all four
  counters 0, \<open>minuteResetAt = now + 60000\<close>, \<open>dayResetAt\<close> the next local midnight,
  that is the instant the zone gives for the first whole day of local time after \<open>now\<close>.
  With a stored state it reconciles: an elapsed minute window comes out with both minute
  counters 0 and \<open>minuteResetAt = now + 60000\<close>. A call on a state whose two windows are
  still live changes nothing; so a second call after a first one that found nothing
  stored, made within the minute and before that midnight, changes nothing.
\<close>

theorem initialize_fresh_reload_idempotent:
  "initializeUsageState zone now \<lparr>groqUsage = None, notified = n\<rparr> =
     \<lparr>groqUsage = Some
        \<lparr>model = ''llama-3.3-70b-versatile'',
         tokensUsedThisMinute = 0, tokensUsedToday = 0,
         requestsUsedThisMinute = 0, requestsUsedToday = 0,
         minuteResetAt = now + 60000, dayResetAt = getNextMidnight zone now\<rparr>,
      notified = n\<rparr>
   \<and> getNextMidnight zone now = UTC zone ((LocalTime zone now div 86400000 + 1) * 86400000)
   \<and> LocalTime zone now < (LocalTime zone now div 86400000 + 1) * 86400000
   \<and> ((LocalTime zone now div 86400000 + 1) * 86400000) mod 86400000 = 0
   \<and> (getUsageState mgr = Some st \<longrightarrow>
        initializeUsageState zone now mgr = checkAndResetCounters zone now mgr)
   \<and> (getUsageState mgr = Some st \<and> minuteResetAt st \<le> now \<longrightarrow>
        (\<exists>st'. getUsageState (initializeUsageState zone now mgr) = Some st'
           \<and> tokensUsedThisMinute st' = 0 \<and> requestsUsedThisMinute st' = 0
           \<and> minuteResetAt st' = now + 60000))
   \<and> (getUsageState mgr = Some st \<and> now < minuteResetAt st \<and> now < dayResetAt st \<longrightarrow>
        initializeUsageState zone now mgr = mgr)
   \<and> (now' < now + 60000 \<and> now' < getNextMidnight zone now \<longrightarrow>
        initializeUsageState zone now'
          (initializeUsageState zone now \<lparr>groqUsage = None, notified = n\<rparr>) =
        initializeUsageState zone now \<lparr>groqUsage = None, notified = n\<rparr>)"
proof -
  have fresh: "initializeUsageState zone now \<lparr>groqUsage = None, notified = n\<rparr> =
     \<lparr>groqUsage = Some
        \<lparr>model = ''llama-3.3-70b-versatile'',
         tokensUsedThisMinute = 0, tokensUsedToday = 0,
         requestsUsedThisMinute = 0, requestsUsedToday = 0,
         minuteResetAt = now + 60000, dayResetAt = getNextMidnight zone now\<rparr>,
      notified = n\<rparr>"
    by (simp add: initializeUsageState_def getUsageState_def)
  have midnight: "getNextMidnight zone now =
      UTC zone ((LocalTime zone now div 86400000 + 1) * 86400000)"
    by (simp add: getNextMidnight_def)
  have reload: "initializeUsageState zone t mgr = checkAndResetCounters zone t mgr"
    if "getUsageState mgr = Some st" for mgr st t
    using that by (simp add: initializeUsageState_def)
  have corrected: "\<exists>st'. getUsageState (initializeUsageState zone now mgr) = Some st'
           \<and> tokensUsedThisMinute st' = 0 \<and> requestsUsedThisMinute st' = 0
           \<and> minuteResetAt st' = now + 60000"
    if "getUsageState mgr = Some st" "minuteResetAt st \<le> now"
    using that checkAndResetCounters_state [OF that(1), of zone now]
    by (simp add: reload [OF that(1)])
  have live: "initializeUsageState zone t mgr = mgr"
    if "getUsageState mgr = Some st" "t < minuteResetAt st" "t < dayResetAt st" for mgr st t
    using that checkAndResetCounters_live [OF that, of zone]
    by (simp add: reload [OF that(1)])
  have again: "initializeUsageState zone now'
          (initializeUsageState zone now \<lparr>groqUsage = None, notified = n\<rparr>) =
        initializeUsageState zone now \<lparr>groqUsage = None, notified = n\<rparr>"
    if "now' < now + 60000" "now' < getNextMidnight zone now"
  proof -
    define st0 where "st0 =
        \<lparr>model = ''llama-3.3-70b-versatile'',
         tokensUsedThisMinute = 0, tokensUsedToday = 0,
         requestsUsedThisMinute = 0, requestsUsedToday = 0,
         minuteResetAt = now + 60000, dayResetAt = getNextMidnight zone now\<rparr>"
    have stored: "getUsageState \<lparr>groqUsage = Some st0, notified = n\<rparr> = Some st0"
      by (simp add: getUsageState_def)
    have ahead: "now' < minuteResetAt st0" "now' < dayResetAt st0"
      using that by (simp_all add: st0_def)
    from live [OF stored ahead] show ?thesis
      by (simp add: fresh st0_def)
  qed
  from fresh midnight reload corrected live again next_day_boundary [of "LocalTime zone now"]
  show ?thesis by blast
qed

text \<open>
  Witness for C9, in UTC: the first initialization stores the fresh state; a stored state
  whose minute window ended 5 minutes before the reload comes out with zeroed minute
  counters and \<open>minuteResetAt\<close> 60 s ahead; initializing again 30 s after the first
  initialization changes nothing.
\<close>

theorem initialize_fresh_reload_idempotent_witness:
  "initializeUsageState utc_zone 1700000000000 \<lparr>groqUsage = None, notified = 0\<rparr> =
     holding fresh_state
   \<and> getUsageState (holding stale_minute_state) = Some stale_minute_state
   \<and> minuteResetAt stale_minute_state \<le> 1700000000000
   \<and> getUsageState
        (initializeUsageState utc_zone 1700000000000 (holding stale_minute_state)) =
       Some \<lparr>model = ''llama-3.3-70b-versatile'',
             tokensUsedThisMinute = 0, tokensUsedToday = 4500,
             requestsUsedThisMinute = 0, requestsUsedToday = 9,
             minuteResetAt = 1700000060000, dayResetAt = 1700006400000\<rparr>
   \<and> 1700000030000 < getNextMidnight utc_zone 1700000000000
   \<and> initializeUsageState utc_zone 1700000030000
        (initializeUsageState utc_zone 1700000000000 \<lparr>groqUsage = None, notified = 0\<rparr>) =
       holding fresh_state"
proof -
  have h: "getUsageState (holding stale_minute_state) = Some stale_minute_state"
    by (simp add: getUsageState_def holding_def)
  have e: "minuteResetAt stale_minute_state \<le> 1700000000000"
    by (simp add: stale_minute_state_def)
  have m: "getNextMidnight utc_zone 1700000000000 = 1700006400000"
    by (simp add: getNextMidnight_utc_zone)
  have r: "getUsageState
        (checkAndResetCounters utc_zone 1700000000000 (holding stale_minute_state)) =
       Some \<lparr>model = ''llama-3.3-70b-versatile'',
             tokensUsedThisMinute = 0, tokensUsedToday = 4500,
             requestsUsedThisMinute = 0, requestsUsedToday = 9,
             minuteResetAt = 1700000060000, dayResetAt = 1700006400000\<rparr>"
    by (simp add: checkAndResetCounters_def getUsageState_def updateUsageState_def holding_def
        stale_minute_state_def)
  note init = initialize_fresh_reload_idempotent
      [of utc_zone 1700000000000 0 "holding stale_minute_state" stale_minute_state
          1700000030000]
  from init
  have "initializeUsageState utc_zone 1700000000000 \<lparr>groqUsage = None, notified = 0\<rparr> =
     \<lparr>groqUsage = Some
        \<lparr>model = ''llama-3.3-70b-versatile'',
         tokensUsedThisMinute = 0, tokensUsedToday = 0,
         requestsUsedThisMinute = 0, requestsUsedToday = 0,
         minuteResetAt = 1700000000000 + 60000,
         dayResetAt = getNextMidnight utc_zone 1700000000000\<rparr>,
      notified = 0\<rparr>"
    by blast
  then have 1: "initializeUsageState utc_zone 1700000000000
        \<lparr>groqUsage = None, notified = 0\<rparr> = holding fresh_state"
    by (simp add: m holding_def fresh_state_def)
  from init h
  have 2: "initializeUsageState utc_zone 1700000000000 (holding stale_minute_state) =
        checkAndResetCounters utc_zone 1700000000000 (holding stale_minute_state)"
    by blast
  have ahead: "(1700000030000::int) < 1700000000000 + 60000"
    "1700000030000 < getNextMidnight utc_zone 1700000000000"
    by (simp_all add: m)
  from init ahead
  have 3: "initializeUsageState utc_zone 1700000030000
        (initializeUsageState utc_zone 1700000000000 \<lparr>groqUsage = None, notified = 0\<rparr>) =
       initializeUsageState utc_zone 1700000000000 \<lparr>groqUsage = None, notified = 0\<rparr>"
    by blast
  from 1 2 3 h e r m show ?thesis by simp
qed

text \<open>
  Claim C10. With no stored state every operation is a no-op: \<open>recordUsage\<close> and
  \<open>setModel\<close> leave the manager as it is (nothing stored, nobody notified),
  \<open>isCurrentlyRateLimited\<close> is false, \<open>getSecondsUntilNextReset\<close> is 0; so are
  \<open>enforceLimitsAndWaitIfNeeded\<close>, which does not wait, and \<open>checkAndResetCounters\<close>.
\<close>

theorem absent_state_noop:
  "recordUsage zone now p c t \<lparr>groqUsage = None, notified = n\<rparr> =
     \<lparr>groqUsage = None, notified = n\<rparr>
   \<and> setModel m \<lparr>groqUsage = None, notified = n\<rparr> = \<lparr>groqUsage = None, notified = n\<rparr>
   \<and> isCurrentlyRateLimited zone now \<lparr>groqUsage = None, notified = n\<rparr> =
        (False, \<lparr>groqUsage = None, notified = n\<rparr>)
   \<and> getSecondsUntilNextReset now \<lparr>groqUsage = None, notified = n\<rparr> = 0
   \<and> enforceLimitsAndWaitIfNeeded zone now late \<lparr>groqUsage = None, notified = n\<rparr> =
        (None, \<lparr>groqUsage = None, notified = n\<rparr>)
   \<and> checkAndResetCounters zone now \<lparr>groqUsage = None, notified = n\<rparr> =
        \<lparr>groqUsage = None, notified = n\<rparr>"
  by (simp add: recordUsage_def setModel_def isCurrentlyRateLimited_def
      getSecondsUntilNextReset_def enforceLimitsAndWaitIfNeeded_def
      checkAndResetCounters_def getUsageState_def)

end
